theory Spec2Isabelle
  imports Main "HOL-Library.Log_Nat"
begin

section \<open>The healthcare registry: data model\<close>

text \<open>
  The Python program keeps every entity as a mutable object that several containers
  share by reference (an appointment is held by the registry's index, by the doctor's
  list and by the patient's list at once). The model therefore has an explicit object
  store: a reference is an address, each class has a store from addresses to objects,
  and a container holds addresses. Constructing an object takes the next free address.

  Conventions of the model:
  \<^item> \<open>datetime\<close> is a count of microseconds; \<open>datetime.now()\<close> is an argument \<open>now\<close>
    of the operation that reads the clock;
  \<^item> \<open>uuid.uuid4()\<close> is an argument \<open>uuid\<close> of the operation that draws it;
  \<^item> an amount of money is a Python \<open>float\<close>, an IEEE 754 double, with its rounding, its
    infinities and its NaN;
  \<^item> an exception is a value \<open>Inl e\<close>, returned together with the state as it is
    when the exception is raised;
  \<^item> text printed on the console is left out, except for the report of
    \<open>Doctor.confirm_appointment\<close>, whose only result is what it prints;
  \<^item> a field keeps its name in the source unless two classes use the same name, where
    it gets a prefix (\<open>bill_status\<close>, \<open>appt_status\<close>).
\<close>

type_synonym ref = nat
type_synonym datetime = int

text \<open>
  The five exception classes of the program, each with its message, and the two built-in
  exceptions that the modelled code can raise (\<open>del d[k]\<close> on a missing key, an
  attribute that the object's class does not have).
\<close>

datatype error =
    AuthenticationError string
  | AuthorizationError string
  | SchedulingConflictError string
  | BillingError string
  | RecordNotFoundError string
  | KeyError string
  | AttributeError string

text \<open>\<open>x if x else str(uuid.uuid4())\<close>: \<open>None\<close> and the empty string are both falsy.\<close>

definition id_or_uuid :: "string option \<Rightarrow> string \<Rightarrow> string" where
  "id_or_uuid supplied uuid =
     (case supplied of None \<Rightarrow> uuid | Some i \<Rightarrow> if i = [] then uuid else i)"

definition timedelta_days :: "int \<Rightarrow> int" where
  "timedelta_days d = d * 86400000000"

subsection \<open>Floats\<close>

text \<open>
  A Python \<open>float\<close> is an IEEE 754 binary64 number. \<open>Finite s m e\<close> is the number
  \<open>m * 2^e\<close>, negated when the sign bit \<open>s\<close> is set; the doubles are the values with
  \<open>0 \<le> m < 2^53\<close> and \<open>-1074 \<le> e \<le> 971\<close>, where \<open>m < 2^52\<close> (a subnormal number or a
  zero) only with \<open>e = -1074\<close>.
\<close>

datatype float64 = Finite bool int int | Infinity bool | NaN

definition signed :: "bool \<Rightarrow> int \<Rightarrow> int" where
  "signed s m = (if s then - m else m)"

text \<open>The literal \<open>0.0\<close>; comparing a float with the integer \<open>0\<close> compares it with this value.\<close>

definition float_zero :: float64 where
  "float_zero = Finite False 0 (- 1074)"

text \<open>
  Rounding to nearest, ties to even: the double nearest to \<open>n * 2^k\<close> for \<open>n > 0\<close>, with the
  sign \<open>s\<close>. The result keeps the 53 leading bits of \<open>n\<close> (fewer in the subnormal range);
  the bits dropped decide the rounding; a significand rounded up to \<open>2^53\<close> moves to the
  next exponent; beyond the largest exponent the result is an infinity.
\<close>

definition round64 :: "bool \<Rightarrow> int \<Rightarrow> int \<Rightarrow> float64" where
  "round64 s n k =
     (let e = max (k + bitlen n - 53) (- 1074);
          m = (if e \<le> k then n * 2 ^ nat (k - e)
               else (let d = nat (e - k); q = n div 2 ^ d; r = n mod 2 ^ d; half = 2 ^ (d - 1)
                     in if r > half \<or> (r = half \<and> odd q) then q + 1 else q));
          e1 = (if m = 2 ^ 53 then e + 1 else e);
          m1 = (if m = 2 ^ 53 then 2 ^ 52 else m)
      in if e1 > 971 then Infinity s else Finite s m1 e1)"

text \<open>
  \<open>a - b\<close> on floats: the exact difference of two finite numbers, rounded. An exact
  difference of zero is \<open>-0.0\<close> only for \<open>-0.0 - 0.0\<close>.
\<close>

fun float_sub :: "float64 \<Rightarrow> float64 \<Rightarrow> float64" where
  "float_sub NaN _ = NaN"
| "float_sub _ NaN = NaN"
| "float_sub (Infinity s1) (Infinity s2) = (if s1 = s2 then NaN else Infinity s1)"
| "float_sub (Infinity s1) (Finite _ _ _) = Infinity s1"
| "float_sub (Finite _ _ _) (Infinity s2) = Infinity (\<not> s2)"
| "float_sub (Finite s1 m1 e1) (Finite s2 m2 e2) =
     (let k = min e1 e2;
          x = signed s1 m1 * 2 ^ nat (e1 - k);
          y = signed s2 m2 * 2 ^ nat (e2 - k)
      in if x - y = 0 then Finite (s1 \<and> \<not> s2) 0 (- 1074)
         else round64 (x - y < 0) \<bar>x - y\<bar> k)"

text \<open>\<open>a < b\<close> and \<open>a <= b\<close> on floats; a comparison with NaN is false.\<close>

fun float_lt :: "float64 \<Rightarrow> float64 \<Rightarrow> bool" where
  "float_lt NaN _ = False"
| "float_lt _ NaN = False"
| "float_lt (Infinity s1) (Infinity s2) = (s1 \<and> \<not> s2)"
| "float_lt (Infinity s1) (Finite _ _ _) = s1"
| "float_lt (Finite _ _ _) (Infinity s2) = (\<not> s2)"
| "float_lt (Finite s1 m1 e1) (Finite s2 m2 e2) =
     (let k = min e1 e2
      in signed s1 m1 * 2 ^ nat (e1 - k) < signed s2 m2 * 2 ^ nat (e2 - k))"

fun float_le :: "float64 \<Rightarrow> float64 \<Rightarrow> bool" where
  "float_le NaN _ = False"
| "float_le _ NaN = False"
| "float_le (Infinity s1) (Infinity s2) = (s1 \<or> \<not> s2)"
| "float_le (Infinity s1) (Finite _ _ _) = s1"
| "float_le (Finite _ _ _) (Infinity s2) = (\<not> s2)"
| "float_le (Finite s1 m1 e1) (Finite s2 m2 e2) =
     (let k = min e1 e2
      in signed s1 m1 * 2 ^ nat (e1 - k) \<le> signed s2 m2 * 2 ^ nat (e2 - k))"

text \<open>The double nearest to an integer, for writing down constants.\<close>

definition float_of_int :: "int \<Rightarrow> float64" where
  "float_of_int i = (if i = 0 then float_zero else round64 (i < 0) \<bar>i\<bar> 0)"

subsection \<open>Billing\<close>

record billing =
  billing_id :: string
  bill_patient_id :: string
  amount_due :: float64
  due_date :: datetime
  bill_status :: string
  description :: string

definition Billing_init ::
  "string \<Rightarrow> float64 \<Rightarrow> string \<Rightarrow> string option \<Rightarrow> string \<Rightarrow> datetime \<Rightarrow> billing" where
  "Billing_init patient_id amount descr bid uuid now =
     \<lparr> billing_id = id_or_uuid bid uuid,
       bill_patient_id = patient_id,
       amount_due = amount,
       due_date = now + timedelta_days 30,
       bill_status = ''Unpaid'',
       description = descr \<rparr>"

text \<open>
  \<open>Billing.apply_payment\<close>, branch by branch; the clock is read in the third branch only.
  A NaN amount fails every comparison and reaches the last branch.
\<close>

definition apply_payment :: "billing \<Rightarrow> float64 \<Rightarrow> datetime \<Rightarrow> (error + unit) \<times> billing" where
  "apply_payment self amount now =
     (if float_le amount float_zero then
        (Inl (BillingError ''Payment amount must be positive.''), self)
      else if float_le (amount_due self) amount then
        (Inr (), self\<lparr>bill_status := ''Paid'', amount_due := float_zero\<rparr>)
      else if float_lt float_zero amount \<and> float_lt amount (amount_due self) then
        (let self1 = self\<lparr>amount_due := float_sub (amount_due self) amount\<rparr>
         in if now > due_date self1
            then (Inr (), self1\<lparr>bill_status := ''Overdue''\<rparr>)
            else (Inr (), self1))
      else
        (Inl (BillingError ''Invalid payment amount.''), self))"

subsection \<open>Appointment\<close>

record appointment =
  appointment_id :: string
  appt_patient_id :: string
  appt_doctor_id :: string
  date_time :: datetime
  appt_status :: string
  appt_notes :: string

definition Appointment_init ::
  "string \<Rightarrow> string \<Rightarrow> datetime \<Rightarrow> string option \<Rightarrow> string \<Rightarrow> appointment" where
  "Appointment_init patient_id doctor_id t aid uuid =
     \<lparr> appointment_id = id_or_uuid aid uuid,
       appt_patient_id = patient_id,
       appt_doctor_id = doctor_id,
       date_time = t,
       appt_status = ''Scheduled'',
       appt_notes = [] \<rparr>"

text \<open>\<open>Appointment.update_status\<close>: any string is accepted.\<close>

definition update_status :: "appointment \<Rightarrow> string \<Rightarrow> appointment" where
  "update_status self new_status = self\<lparr>appt_status := new_status\<rparr>"

subsection \<open>Medication, prescription, medical record\<close>

text \<open>
  No operation of the registry changes a prescription after it is handed over, so a
  prescription is kept as a value. A medical record is changed in place by
  \<open>add_prescription\<close> and so lives in the store.
\<close>

record medication =
  medication_id :: string
  med_name :: string
  dosage :: string
  frequency :: string
  duration :: string

record prescription =
  prescription_id :: string
  presc_patient_id :: string
  presc_doctor_id :: string
  medications :: "medication list"
  date_issued :: datetime
  instructions :: string

definition Prescription_init ::
  "string \<Rightarrow> string \<Rightarrow> string \<Rightarrow> string option \<Rightarrow> string \<Rightarrow> datetime \<Rightarrow> prescription" where
  "Prescription_init patient_id doctor_id instr pid uuid now =
     \<lparr> prescription_id = id_or_uuid pid uuid,
       presc_patient_id = patient_id,
       presc_doctor_id = doctor_id,
       medications = [],
       date_issued = now,
       instructions = instr \<rparr>"

record medical_record =
  record_id :: string
  rec_patient_id :: string
  rec_doctor_id :: string
  rec_date :: datetime
  diagnosis :: string
  treatment :: string
  rec_prescriptions :: "prescription list"
  rec_notes :: string

subsection \<open>Users\<close>

text \<open>
  \<open>password\<close> holds the digest; hashing is done by the caller of the constructor.
  The class of a user object is the constructor of \<open>user_obj\<close>, which is what
  \<open>isinstance\<close> tests; \<open>role\<close> is an ordinary field, set by each constructor.
\<close>

record user =
  user_id :: string
  name :: string
  email :: string
  password :: string
  role :: string

record patient = user +
  medical_history :: "ref list"
  pat_appointments :: "ref list"
  billing_info :: "ref list"
  insurance_details :: "(string \<times> string) list"

record doctor = user +
  specialization :: string
  doc_appointments :: "ref list"
  patients :: "string set"
  schedule :: "datetime set"

datatype user_obj = Patient patient | Doctor doctor | Administrator user

fun obj_user_id :: "user_obj \<Rightarrow> string" where
  "obj_user_id (Patient p) = user_id p"
| "obj_user_id (Doctor d) = user_id d"
| "obj_user_id (Administrator a) = user_id a"

fun obj_email :: "user_obj \<Rightarrow> string" where
  "obj_email (Patient p) = email p"
| "obj_email (Doctor d) = email d"
| "obj_email (Administrator a) = email a"

fun obj_role :: "user_obj \<Rightarrow> string" where
  "obj_role (Patient p) = role p"
| "obj_role (Doctor d) = role d"
| "obj_role (Administrator a) = role a"

subsection \<open>The registry and the object store\<close>

text \<open>
  The first six fields are the dictionaries of \<open>HealthcareSystem\<close> (its \<open>reports\<close>
  dictionary is only written by report generation, which is not modelled). The stores
  and \<open>next_ref\<close> model Python's heap: every address holds an object, and the addresses
  from \<open>next_ref\<close> on have not been handed out yet.
\<close>

record state =
  users :: "string \<rightharpoonup> ref"
  users_by_email :: "string \<rightharpoonup> ref"
  appointments :: "string \<rightharpoonup> ref"
  medical_records :: "string \<rightharpoonup> ref"
  prescriptions :: "string \<rightharpoonup> prescription"
  billings :: "string \<rightharpoonup> ref"
  user_store :: "ref \<Rightarrow> user_obj"
  appt_store :: "ref \<Rightarrow> appointment"
  record_store :: "ref \<Rightarrow> medical_record"
  billing_store :: "ref \<Rightarrow> billing"
  next_ref :: ref

definition blank_user :: user_obj where
  "blank_user = Administrator
     \<lparr> user_id = [], name = [], email = [], password = [], role = [] \<rparr>"

definition blank_appointment :: appointment where
  "blank_appointment =
     \<lparr> appointment_id = [], appt_patient_id = [], appt_doctor_id = [], date_time = 0,
       appt_status = [], appt_notes = [] \<rparr>"

definition blank_record :: medical_record where
  "blank_record =
     \<lparr> record_id = [], rec_patient_id = [], rec_doctor_id = [], rec_date = 0,
       diagnosis = [], treatment = [], rec_prescriptions = [], rec_notes = [] \<rparr>"

definition blank_billing :: billing where
  "blank_billing =
     \<lparr> billing_id = [], bill_patient_id = [], amount_due = float_zero, due_date = 0,
       bill_status = [], description = [] \<rparr>"

definition HealthcareSystem_init :: state where
  "HealthcareSystem_init =
     \<lparr> users = Map.empty, users_by_email = Map.empty, appointments = Map.empty,
       medical_records = Map.empty, prescriptions = Map.empty, billings = Map.empty,
       user_store = (\<lambda>_. blank_user), appt_store = (\<lambda>_. blank_appointment),
       record_store = (\<lambda>_. blank_record), billing_store = (\<lambda>_. blank_billing),
       next_ref = 0 \<rparr>"

subsection \<open>Constructors of the objects that the caller builds\<close>

definition Patient_init ::
  "state \<Rightarrow> string \<Rightarrow> string \<Rightarrow> string \<Rightarrow> (string \<times> string) list \<Rightarrow> string option \<Rightarrow> string
     \<Rightarrow> ref \<times> state" where
  "Patient_init s nm em digest insurance uid uuid =
     (let a = next_ref s;
          self = \<lparr> user_id = id_or_uuid uid uuid, name = nm, email = em,
                   password = digest, role = ''Patient'',
                   medical_history = [], pat_appointments = [], billing_info = [],
                   insurance_details = insurance \<rparr>
      in (a, s\<lparr>user_store := (user_store s)(a := Patient self), next_ref := Suc a\<rparr>))"

definition Doctor_init ::
  "state \<Rightarrow> string \<Rightarrow> string \<Rightarrow> string \<Rightarrow> string \<Rightarrow> string option \<Rightarrow> string \<Rightarrow> ref \<times> state" where
  "Doctor_init s nm em digest spec uid uuid =
     (let a = next_ref s;
          self = \<lparr> user_id = id_or_uuid uid uuid, name = nm, email = em,
                   password = digest, role = ''Doctor'',
                   specialization = spec, doc_appointments = [], patients = {},
                   schedule = {} \<rparr>
      in (a, s\<lparr>user_store := (user_store s)(a := Doctor self), next_ref := Suc a\<rparr>))"

definition Administrator_init ::
  "state \<Rightarrow> string \<Rightarrow> string \<Rightarrow> string \<Rightarrow> string option \<Rightarrow> string \<Rightarrow> ref \<times> state" where
  "Administrator_init s nm em digest uid uuid =
     (let a = next_ref s;
          self = \<lparr> user_id = id_or_uuid uid uuid, name = nm, email = em,
                   password = digest, role = ''Administrator'' \<rparr>
      in (a, s\<lparr>user_store := (user_store s)(a := Administrator self), next_ref := Suc a\<rparr>))"

definition MedicalRecord_init ::
  "state \<Rightarrow> string \<Rightarrow> string \<Rightarrow> string \<Rightarrow> string \<Rightarrow> string \<Rightarrow> string option \<Rightarrow> string \<Rightarrow> datetime
     \<Rightarrow> ref \<times> state" where
  "MedicalRecord_init s patient_id doctor_id diag treat nts rid uuid now =
     (let a = next_ref s;
          self = \<lparr> record_id = id_or_uuid rid uuid, rec_patient_id = patient_id,
                   rec_doctor_id = doctor_id, rec_date = now, diagnosis = diag,
                   treatment = treat, rec_prescriptions = [], rec_notes = nts \<rparr>
      in (a, s\<lparr>record_store := (record_store s)(a := self), next_ref := Suc a\<rparr>))"

section \<open>The registry's operations\<close>

subsection \<open>Users\<close>

definition register_user :: "state \<Rightarrow> ref \<Rightarrow> (error + unit) \<times> state" where
  "register_user s usr =
     (let u = user_store s usr in
      if users_by_email s (obj_email u) \<noteq> None then
        (Inl (AuthenticationError ''User already exists with this email.''), s)
      else
        (Inr (), s\<lparr>users := (users s)(obj_user_id u \<mapsto> usr),
                   users_by_email := (users_by_email s)(obj_email u \<mapsto> usr)\<rparr>))"

definition remove_user :: "state \<Rightarrow> string \<Rightarrow> (error + unit) \<times> state" where
  "remove_user s uid =
     (case users s uid of
        None \<Rightarrow> (Inl (RecordNotFoundError ''User not found.''), s)
      | Some usr \<Rightarrow>
          (let em = obj_email (user_store s usr) in
           if users_by_email s em = None then (Inl (KeyError em), s)
           else (Inr (), s\<lparr>users_by_email := (users_by_email s)(em := None),
                           users := (users s)(uid := None)\<rparr>)))"

text \<open>
  \<open>self.users.get(id)\<close> followed by \<open>isinstance(_, Patient)\<close>, respectively
  \<open>isinstance(_, Doctor)\<close>: the object and its address, when the id resolves to an
  object of that class.
\<close>

definition get_patient :: "state \<Rightarrow> string \<Rightarrow> (ref \<times> patient) option" where
  "get_patient s uid =
     (case users s uid of
        None \<Rightarrow> None
      | Some r \<Rightarrow> (case user_store s r of Patient p \<Rightarrow> Some (r, p) | _ \<Rightarrow> None))"

definition get_doctor :: "state \<Rightarrow> string \<Rightarrow> (ref \<times> doctor) option" where
  "get_doctor s uid =
     (case users s uid of
        None \<Rightarrow> None
      | Some r \<Rightarrow> (case user_store s r of Doctor d \<Rightarrow> Some (r, d) | _ \<Rightarrow> None))"

subsection \<open>Appointments\<close>

text \<open>
  The conflict scan of \<open>schedule_appointment\<close> and \<open>reschedule_appointment\<close>: the loop
  over the doctor's appointment list raises at the first entry with the same time and
  the status Scheduled.
\<close>

fun conflict :: "(ref \<Rightarrow> appointment) \<Rightarrow> ref list \<Rightarrow> datetime \<Rightarrow> bool" where
  "conflict h [] t = False"
| "conflict h (r # rs) t =
     (if date_time (h r) = t \<and> appt_status (h r) = ''Scheduled'' then True
      else conflict h rs t)"

definition schedule_appointment ::
  "state \<Rightarrow> string \<Rightarrow> string \<Rightarrow> datetime \<Rightarrow> string option \<Rightarrow> string \<Rightarrow> (error + ref) \<times> state" where
  "schedule_appointment s patient_id doctor_id appointment_time aid uuid =
     (case (get_patient s patient_id, get_doctor s doctor_id) of
        (Some (pr, pat), Some (dr, doc)) \<Rightarrow>
          if conflict (appt_store s) (doc_appointments doc) appointment_time then
            (Inl (SchedulingConflictError ''Doctor is not available at this time.''), s)
          else
            (let a = next_ref s;
                 appointment = Appointment_init patient_id doctor_id appointment_time aid uuid;
                 doc1 = doc\<lparr>doc_appointments := doc_appointments doc @ [a],
                            patients := insert patient_id (patients doc)\<rparr>;
                 pat1 = pat\<lparr>pat_appointments := pat_appointments pat @ [a]\<rparr>
             in (Inr a,
                 s\<lparr>appt_store := (appt_store s)(a := appointment),
                   next_ref := Suc a,
                   appointments := (appointments s)(appointment_id appointment \<mapsto> a),
                   user_store := (user_store s)(dr := Doctor doc1, pr := Patient pat1)\<rparr>))
      | _ \<Rightarrow> (Inl (RecordNotFoundError ''Invalid patient or doctor ID.''), s))"

text \<open>
  \<open>Doctor.confirm_appointment\<close>: a method of the doctor object \<open>self\<close>. It looks at the
  first entry of the doctor's own list with the given id and returns after it. What it
  prints is its report.
\<close>

datatype confirm_report =
    Has_been_confirmed string
  | Cannot_be_confirmed string string
  | Not_found string

fun confirm_scan :: "state \<Rightarrow> ref list \<Rightarrow> string \<Rightarrow> (error + confirm_report) \<times> state" where
  "confirm_scan s [] aid = (Inr (Not_found aid), s)"
| "confirm_scan s (r # rs) aid =
     (let appt = appt_store s r in
      if appointment_id appt = aid then
        (if appt_status appt = ''Scheduled'' then
           (Inr (Has_been_confirmed aid),
            s\<lparr>appt_store := (appt_store s)(r := update_status appt ''Confirmed'')\<rparr>)
         else (Inr (Cannot_be_confirmed aid (appt_status appt)), s))
      else confirm_scan s rs aid)"

definition confirm_appointment ::
  "state \<Rightarrow> doctor \<Rightarrow> string \<Rightarrow> (error + confirm_report) \<times> state" where
  "confirm_appointment s self aid = confirm_scan s (doc_appointments self) aid"

definition cancel_appointment :: "state \<Rightarrow> string \<Rightarrow> (error + unit) \<times> state" where
  "cancel_appointment s aid =
     (case appointments s aid of
        None \<Rightarrow> (Inl (RecordNotFoundError ''Appointment not found.''), s)
      | Some r \<Rightarrow>
          (Inr (), s\<lparr>appt_store :=
                       (appt_store s)(r := update_status (appt_store s r) ''Cancelled'')\<rparr>))"

definition reschedule_appointment :: "state \<Rightarrow> string \<Rightarrow> datetime \<Rightarrow> (error + unit) \<times> state" where
  "reschedule_appointment s aid new_time =
     (case appointments s aid of
        None \<Rightarrow> (Inl (RecordNotFoundError ''Appointment not found.''), s)
      | Some r \<Rightarrow>
          (case get_doctor s (appt_doctor_id (appt_store s r)) of
             None \<Rightarrow> (Inl (RecordNotFoundError ''Doctor not found.''), s)
           | Some (dr, doc) \<Rightarrow>
               if conflict (appt_store s) (doc_appointments doc) new_time then
                 (Inl (SchedulingConflictError ''Doctor is not available at the new time.''), s)
               else
                 (Inr (), s\<lparr>appt_store :=
                              (appt_store s)(r := (appt_store s r)\<lparr>date_time := new_time\<rparr>)\<rparr>)))"

subsection \<open>Medical records and prescriptions\<close>

definition add_medical_record :: "state \<Rightarrow> string \<Rightarrow> ref \<Rightarrow> (error + unit) \<times> state" where
  "add_medical_record s patient_id rec =
     (case get_patient s patient_id of
        None \<Rightarrow> (Inl (RecordNotFoundError ''Patient not found.''), s)
      | Some (pr, pat) \<Rightarrow>
          (Inr (),
           s\<lparr>medical_records := (medical_records s)(record_id (record_store s rec) \<mapsto> rec),
             user_store := (user_store s)
               (pr := Patient (pat\<lparr>medical_history := medical_history pat @ [rec]\<rparr>))\<rparr>))"

definition get_medical_records :: "state \<Rightarrow> string \<Rightarrow> error + ref list" where
  "get_medical_records s patient_id =
     (case get_patient s patient_id of
        None \<Rightarrow> Inl (RecordNotFoundError ''Patient not found.'')
      | Some (pr, pat) \<Rightarrow> Inr (medical_history pat))"

definition add_prescription :: "state \<Rightarrow> string \<Rightarrow> prescription \<Rightarrow> (error + unit) \<times> state" where
  "add_prescription s patient_id presc =
     (case get_patient s patient_id of
        None \<Rightarrow> (Inl (RecordNotFoundError ''Patient not found.''), s)
      | Some (pr, pat) \<Rightarrow>
          (let s1 = s\<lparr>prescriptions := (prescriptions s)(prescription_id presc \<mapsto> presc)\<rparr>
           in if medical_history pat \<noteq> [] then
                (let latest_record = last (medical_history pat);
                     r = record_store s1 latest_record
                 in (Inr (),
                     s1\<lparr>record_store := (record_store s1)
                          (latest_record :=
                             r\<lparr>rec_prescriptions := rec_prescriptions r @ [presc]\<rparr>)\<rparr>))
              else (Inr (), s1)))"

text \<open>The loop shared by \<open>get_prescriptions\<close> and \<open>Patient.view_prescriptions\<close>.\<close>

definition collect_prescriptions :: "state \<Rightarrow> ref list \<Rightarrow> prescription list" where
  "collect_prescriptions s history =
     concat (map (\<lambda>r. rec_prescriptions (record_store s r)) history)"

definition get_prescriptions :: "state \<Rightarrow> string \<Rightarrow> error + prescription list" where
  "get_prescriptions s patient_id =
     (case get_patient s patient_id of
        None \<Rightarrow> Inl (RecordNotFoundError ''Patient not found.'')
      | Some (pr, pat) \<Rightarrow> Inr (collect_prescriptions s (medical_history pat)))"

definition view_prescriptions :: "state \<Rightarrow> patient \<Rightarrow> prescription list" where
  "view_prescriptions s self = collect_prescriptions s (medical_history self)"

subsection \<open>Billing\<close>

definition create_billing ::
  "state \<Rightarrow> string \<Rightarrow> float64 \<Rightarrow> string \<Rightarrow> string option \<Rightarrow> string \<Rightarrow> datetime
     \<Rightarrow> (error + ref) \<times> state" where
  "create_billing s patient_id amount descr bid uuid now =
     (case get_patient s patient_id of
        None \<Rightarrow> (Inl (RecordNotFoundError ''Patient not found.''), s)
      | Some (pr, pat) \<Rightarrow>
          (let a = next_ref s;
               bill = Billing_init patient_id amount descr bid uuid now
           in (Inr a,
               s\<lparr>billing_store := (billing_store s)(a := bill),
                 next_ref := Suc a,
                 billings := (billings s)(billing_id bill \<mapsto> a),
                 user_store := (user_store s)
                   (pr := Patient (pat\<lparr>billing_info := billing_info pat @ [a]\<rparr>))\<rparr>)))"

definition process_payment :: "state \<Rightarrow> string \<Rightarrow> float64 \<Rightarrow> datetime \<Rightarrow> (error + unit) \<times> state" where
  "process_payment s bid amount now =
     (case billings s bid of
        None \<Rightarrow> (Inl (BillingError ''Billing record not found.''), s)
      | Some r \<Rightarrow>
          (case apply_payment (billing_store s r) amount now of
             (res, bill) \<Rightarrow> (res, s\<lparr>billing_store := (billing_store s)(r := bill)\<rparr>)))"

subsection \<open>Authorization\<close>

text \<open>
  \<open>access_medical_records\<close>: the requester is a user object. With the role Doctor the
  code reads \<open>requester.patients\<close>, an attribute that only the class \<open>Doctor\<close> has.
\<close>

definition access_medical_records :: "state \<Rightarrow> ref \<Rightarrow> string \<Rightarrow> error + ref list" where
  "access_medical_records s requester patient_id =
     (let u = user_store s requester in
      if obj_role u \<notin> set [''Doctor'', ''Patient'', ''Administrator''] then
        Inl (AuthorizationError ''Unauthorized access.'')
      else if obj_role u = ''Patient'' \<and> obj_user_id u \<noteq> patient_id then
        Inl (AuthorizationError ''Patients can only access their own medical records.'')
      else if obj_role u = ''Doctor'' then
        (case u of
           Doctor doc \<Rightarrow>
             if patient_id \<notin> patients doc then
               Inl (AuthorizationError ''Doctor not assigned to this patient.'')
             else get_medical_records s patient_id
         | _ \<Rightarrow> Inl (AttributeError ''patients''))
      else get_medical_records s patient_id)"


section \<open>Sequences of operations\<close>

text \<open>
  The calls a client of the registry can make, with their arguments. \<open>exec\<close> performs one
  call and keeps the state it leaves (after an exception: the state at the raise), and
  \<open>run\<close> performs a sequence of calls from the empty registry. A client holds references
  to constructed objects only; \<open>run\<close> does not check the class of the object that a
  reference names, so the states it reaches include every state that the program can
  reach through these calls.
  \<open>Confirm_appointment\<close> names the doctor object whose method is called; on an object of
  another class the method does not exist and nothing changes.
  \<open>Update_status\<close> is \<open>Appointment.update_status\<close>, the public method of the appointment
  object that \<open>schedule_appointment\<close> returns to its caller; it is not an operation of
  the registry, and it is the only code that can give an appointment a status other than
  Scheduled, Confirmed and Cancelled. Its object has been constructed, so its address
  has been handed out.
\<close>

datatype op =
    New_patient string string string "(string \<times> string) list" "string option" string
  | New_doctor string string string string "string option" string
  | New_administrator string string string "string option" string
  | New_medical_record string string string string string "string option" string datetime
  | Register_user ref
  | Remove_user string
  | Schedule_appointment string string datetime "string option" string
  | Confirm_appointment ref string
  | Cancel_appointment string
  | Reschedule_appointment string datetime
  | Add_medical_record string ref
  | Add_prescription string prescription
  | Create_billing string float64 string "string option" string datetime
  | Process_payment string float64 datetime
  | Update_status ref string

fun exec :: "op \<Rightarrow> state \<Rightarrow> state" where
  "exec (New_patient nm em digest insurance uid uuid) s =
     snd (Patient_init s nm em digest insurance uid uuid)"
| "exec (New_doctor nm em digest spec uid uuid) s =
     snd (Doctor_init s nm em digest spec uid uuid)"
| "exec (New_administrator nm em digest uid uuid) s =
     snd (Administrator_init s nm em digest uid uuid)"
| "exec (New_medical_record patient_id doctor_id diag treat nts rid uuid now) s =
     snd (MedicalRecord_init s patient_id doctor_id diag treat nts rid uuid now)"
| "exec (Register_user usr) s = snd (register_user s usr)"
| "exec (Remove_user uid) s = snd (remove_user s uid)"
| "exec (Schedule_appointment patient_id doctor_id t aid uuid) s =
     snd (schedule_appointment s patient_id doctor_id t aid uuid)"
| "exec (Confirm_appointment d aid) s =
     (case user_store s d of
        Doctor self \<Rightarrow> snd (confirm_appointment s self aid)
      | _ \<Rightarrow> s)"
| "exec (Cancel_appointment aid) s = snd (cancel_appointment s aid)"
| "exec (Reschedule_appointment aid new_time) s = snd (reschedule_appointment s aid new_time)"
| "exec (Add_medical_record patient_id rec) s = snd (add_medical_record s patient_id rec)"
| "exec (Add_prescription patient_id presc) s = snd (add_prescription s patient_id presc)"
| "exec (Create_billing patient_id amount descr bid uuid now) s =
     snd (create_billing s patient_id amount descr bid uuid now)"
| "exec (Process_payment bid amount now) s = snd (process_payment s bid amount now)"
| "exec (Update_status r new_status) s =
     (if r < next_ref s then
        s\<lparr>appt_store := (appt_store s)(r := update_status (appt_store s r) new_status)\<rparr>
      else s)"

text \<open>The calls of the registry's surface: all but the method of the appointment object.\<close>

fun is_registry_op :: "op \<Rightarrow> bool" where
  "is_registry_op (Update_status r new_status) = False"
| "is_registry_op _ = True"

text \<open>\<open>cancels op s r\<close>: the call is \<open>cancel_appointment\<close> with an id that the index resolves to \<open>r\<close>.\<close>

fun cancels :: "op \<Rightarrow> state \<Rightarrow> ref \<Rightarrow> bool" where
  "cancels (Cancel_appointment aid) s r = (appointments s aid = Some r)"
| "cancels _ s r = False"

definition run :: "op list \<Rightarrow> state" where
  "run ops = fold exec ops HealthcareSystem_init"

section \<open>Definitions used by the proofs\<close>

text \<open>
  The doubles among the pairs of a significand and an exponent; the value of a double
  times \<open>2^1074\<close>, which is an integer; and what it means that the finite double \<open>c\<close>,
  not a zero, is exactly \<open>a - b\<close>.
\<close>

definition is_double :: "int \<Rightarrow> int \<Rightarrow> bool" where
  "is_double m e =
     (0 \<le> m \<and> m < 2 ^ 53 \<and> - 1074 \<le> e \<and> e \<le> 971 \<and> (2 ^ 52 \<le> m \<or> e = - 1074))"

definition scaled :: "bool \<Rightarrow> int \<Rightarrow> int \<Rightarrow> int" where
  "scaled s m e = signed s m * 2 ^ nat (e + 1074)"

fun exact_difference :: "float64 \<Rightarrow> float64 \<Rightarrow> float64 \<Rightarrow> bool" where
  "exact_difference (Finite s3 m3 e3) (Finite s1 m1 e1) (Finite s2 m2 e2) =
     (is_double m3 e3 \<and> is_double m1 e1 \<and> is_double m2 e2 \<and> m3 \<noteq> 0 \<and>
      scaled s3 m3 e3 = scaled s1 m1 e1 - scaled s2 m2 e2)"
| "exact_difference _ _ _ = False"

text \<open>
  What every state reached by \<open>run\<close> satisfies: an address that has not been handed out
  holds the blank appointment, and the registry's index holds handed-out addresses only.
\<close>

definition appt_inv :: "state \<Rightarrow> bool" where
  "appt_inv s =
     (\<forall>r. (next_ref s \<le> r \<longrightarrow> appt_store s r = blank_appointment) \<and>
          (\<forall>aid. appointments s aid = Some r \<longrightarrow> r < next_ref s))"

text \<open>An operation that leaves the appointments alone.\<close>

definition appt_frame :: "state \<Rightarrow> state \<Rightarrow> bool" where
  "appt_frame s s' =
     (appt_store s' = appt_store s \<and> appointments s' = appointments s \<and>
      next_ref s \<le> next_ref s')"

text \<open>
  The scenario of the specification: a patient P1, an administrator A1 and a doctor D1
  are registered (their objects get the addresses 0, 1 and 2), then P1 books D1 at
  2025-01-01 10:00 (the appointment gets the address 3).
\<close>

definition setup_ops :: "op list" where
  "setup_ops =
     [New_patient ''Paul'' ''paul@clinic.org'' ''digest-p'' [(''provider'', ''X'')] (Some ''P1'') ''uuid-0'',
      Register_user 0,
      New_administrator ''Ada'' ''ada@clinic.org'' ''digest-a'' (Some ''A1'') ''uuid-1'',
      Register_user 1,
      New_doctor ''Dora'' ''dora@clinic.org'' ''digest-d'' ''Cardiology'' (Some ''D1'') ''uuid-2'',
      Register_user 2]"

definition registered :: state where
  "registered = run setup_ops"

definition slot :: datetime where
  "slot = 1735725600000000"

definition booked :: state where
  "booked = snd (schedule_appointment registered ''P1'' ''D1'' slot None ''uuid-3'')"

text \<open>
  The objects of the scenario: the patient and the doctor as constructed, the doctor
  after the booking, a bill of 100 for the visit and the state after it is created, a
  bill of 1e16, a prescription, the state after the doctor has confirmed the appointment,
  the state after the appointment has then been marked Completed, a second doctor
  constructed with the id D1 of the first, and longer sequences of calls.
\<close>

definition visit_bill :: billing where
  "visit_bill = Billing_init ''P1'' (float_of_int 100) ''visit'' (Some ''B1'') ''uuid-5'' slot"

definition billed :: state where
  "billed = snd (create_billing registered ''P1'' (float_of_int 100) ''visit'' (Some ''B1'') ''uuid-5'' slot)"

definition big_bill :: billing where
  "big_bill = Billing_init ''P1'' (float_of_int 10000000000000000) ''surgery'' (Some ''B2'') ''uuid-7'' slot"

definition rest_rx :: prescription where
  "rest_rx = Prescription_init ''P1'' ''D1'' ''rest'' (Some ''RX1'') ''uuid-6'' slot"

definition paul :: patient where
  "paul = \<lparr> user_id = ''P1'', name = ''Paul'', email = ''paul@clinic.org'', password = ''digest-p'',
       role = ''Patient'', medical_history = [], pat_appointments = [], billing_info = [],
       insurance_details = [(''provider'', ''X'')] \<rparr>"

definition dora :: doctor where
  "dora = \<lparr> user_id = ''D1'', name = ''Dora'', email = ''dora@clinic.org'', password = ''digest-d'',
       role = ''Doctor'', specialization = ''Cardiology'', doc_appointments = [], patients = {},
       schedule = {} \<rparr>"

definition dora_booked :: doctor where
  "dora_booked = dora\<lparr>doc_appointments := [3], patients := {''P1''}\<rparr>"

definition confirmed :: state where
  "confirmed = snd (confirm_appointment booked dora_booked ''uuid-3'')"

definition cancelled_ops :: "op list" where
  "cancelled_ops = setup_ops @
     [Schedule_appointment ''P1'' ''D1'' slot None ''uuid-3'', Cancel_appointment ''uuid-3'']"

definition completed_ops :: "op list" where
  "completed_ops = setup_ops @
     [Schedule_appointment ''P1'' ''D1'' slot None ''uuid-3'',
      Confirm_appointment 2 ''uuid-3'',
      Update_status 3 ''Completed'']"

definition completed :: state where
  "completed = confirmed\<lparr>appt_store := (appt_store confirmed)
     (3 := update_status (appt_store confirmed 3) ''Completed'')\<rparr>"




definition double_booking_ops :: "op list" where
  "double_booking_ops = setup_ops @
     [Schedule_appointment ''P1'' ''D1'' slot None ''uuid-3'',
      Confirm_appointment 2 ''uuid-3'',
      Schedule_appointment ''P1'' ''D1'' slot None ''uuid-4'']"

section \<open>Auxiliary facts\<close>

subsection \<open>Floats\<close>

lemma float_lt_not_le: "float_lt a b \<Longrightarrow> \<not> float_le b a"
  by (cases a; cases b) (auto simp: Let_def min.commute)

lemma bitlen_53: "2 ^ 52 \<le> m \<Longrightarrow> m < 2 ^ 53 \<Longrightarrow> bitlen m = 53"
  using bitlen_le_iff_power [of m 53] bitlen_ge_iff_power [of 53 m]
  by simp

lemma bitlen_le_52: "m < 2 ^ 52 \<Longrightarrow> bitlen m \<le> 52"
  using bitlen_le_iff_power [of m 52] by simp

lemma round64_exact:
  assumes c: "is_double m e" and m: "0 < m" and n: "0 < n" and k: "- 1074 \<le> k"
    and eq: "n * 2 ^ nat (k + 1074) = m * 2 ^ nat (e + 1074)"
  shows "round64 s n k = Finite s m e"
proof -
  from c have e: "- 1074 \<le> e" "e \<le> 971" and m53: "m < 2 ^ 53"
    by (simp_all add: is_double_def)
  have "bitlen (n * 2 ^ nat (k + 1074)) = bitlen (m * 2 ^ nat (e + 1074))"
    by (simp only: eq)
  with n m k e have bl: "bitlen n + k = bitlen m + e"
    by simp
  have E: "max (k + bitlen n - 53) (- 1074) = e"
  proof (cases "2 ^ 52 \<le> m")
    case True
    then have "bitlen m = 53" using m53 by (rule bitlen_53)
    with bl e show ?thesis by simp
  next
    case False
    with c have "e = - 1074" by (simp add: is_double_def)
    moreover from False have "bitlen m \<le> 52" by (simp add: bitlen_le_52)
    ultimately show ?thesis using bl by simp
  qed
  have M: "(if e \<le> k then n * 2 ^ nat (k - e)
            else if 2 ^ (nat (e - k) - 1) < n mod 2 ^ nat (e - k) \<or>
                    n mod 2 ^ nat (e - k) = 2 ^ (nat (e - k) - 1) \<and> odd (n div 2 ^ nat (e - k))
                 then n div 2 ^ nat (e - k) + 1 else n div 2 ^ nat (e - k)) = m"
  proof (cases "e \<le> k")
    case True
    with e have "nat (k + 1074) = nat (k - e) + nat (e + 1074)" by simp
    with eq have "n * 2 ^ nat (k - e) * 2 ^ nat (e + 1074) = m * 2 ^ nat (e + 1074)"
      by (simp add: power_add mult.assoc)
    then have "n * 2 ^ nat (k - e) = m" by simp
    with True show ?thesis by simp
  next
    case False
    with k have "nat (e + 1074) = nat (e - k) + nat (k + 1074)" by simp
    with eq have "n * 2 ^ nat (k + 1074) = m * 2 ^ nat (e - k) * 2 ^ nat (k + 1074)"
      by (simp add: power_add mult.assoc)
    then have nm: "n = m * 2 ^ nat (e - k)" by simp
    have "(0::int) < 2 ^ (nat (e - k) - 1)" by simp
    with False nm show ?thesis by simp
  qed
  from m53 e show ?thesis
    unfolding round64_def E Let_def M by simp
qed

lemma float_sub_exact:
  assumes "exact_difference c a b"
  shows "float_sub a b = c"
proof -
  from assms obtain s3 m3 e3 s1 m1 e1 s2 m2 e2 where
    c: "c = Finite s3 m3 e3" and a: "a = Finite s1 m1 e1" and b: "b = Finite s2 m2 e2"
    by (cases c; cases a; cases b) auto
  from assms have d3: "is_double m3 e3" and d1: "is_double m1 e1" and d2: "is_double m2 e2"
    and nz: "m3 \<noteq> 0"
    and eq: "scaled s3 m3 e3 = scaled s1 m1 e1 - scaled s2 m2 e2"
    by (simp_all add: a b c)
  define k where "k = min e1 e2"
  define x where "x = signed s1 m1 * 2 ^ nat (e1 - k)"
  define y where "y = signed s2 m2 * 2 ^ nat (e2 - k)"
  from d1 d2 have k: "- 1074 \<le> k" "k \<le> e1" "k \<le> e2"
    by (simp_all add: k_def is_double_def)
  from d3 nz have m3: "0 < m3" by (simp add: is_double_def)
  from k have "nat (e1 + 1074) = nat (e1 - k) + nat (k + 1074)"
    and "nat (e2 + 1074) = nat (e2 - k) + nat (k + 1074)" by simp_all
  then have "scaled s1 m1 e1 = x * 2 ^ nat (k + 1074)" and "scaled s2 m2 e2 = y * 2 ^ nat (k + 1074)"
    by (simp_all add: scaled_def x_def y_def power_add mult.assoc)
  with eq have xy: "(x - y) * 2 ^ nat (k + 1074) = signed s3 m3 * 2 ^ nat (e3 + 1074)"
    by (simp add: scaled_def algebra_simps)
  have pos: "(0::int) < 2 ^ nat (k + 1074)" "(0::int) < 2 ^ nat (e3 + 1074)" by simp_all
  have sgn: "(x - y < 0) = s3"
  proof (cases s3)
    case True
    with m3 pos have "signed s3 m3 * 2 ^ nat (e3 + 1074) < 0"
      by (simp add: signed_def mult_neg_pos)
    with xy have "(x - y) * 2 ^ nat (k + 1074) < 0" by simp
    with pos have "x - y < 0" by (simp add: mult_less_0_iff)
    with True show ?thesis by simp
  next
    case False
    with m3 pos have "0 < signed s3 m3 * 2 ^ nat (e3 + 1074)"
      by (simp add: signed_def)
    with xy have "0 < (x - y) * 2 ^ nat (k + 1074)" by simp
    with pos have "0 < x - y" by (simp add: zero_less_mult_iff)
    with False show ?thesis by simp
  qed
  have abs: "\<bar>x - y\<bar> * 2 ^ nat (k + 1074) = m3 * 2 ^ nat (e3 + 1074)"
  proof (cases s3)
    case True
    with sgn have "\<bar>x - y\<bar> = - (x - y)" by simp
    then have "\<bar>x - y\<bar> * 2 ^ nat (k + 1074) = - ((x - y) * 2 ^ nat (k + 1074))"
      by (simp only: mult_minus_left)
    also from xy True have "\<dots> = m3 * 2 ^ nat (e3 + 1074)" by (simp add: signed_def)
    finally show ?thesis .
  next
    case False
    with sgn have "\<bar>x - y\<bar> = x - y" by simp
    with xy False show ?thesis by (simp add: signed_def)
  qed
  from sgn m3 have ne: "x - y \<noteq> 0" "0 < \<bar>x - y\<bar>"
    using abs pos by auto
  have "round64 s3 \<bar>x - y\<bar> k = Finite s3 m3 e3"
    using d3 m3 ne(2) k(1) abs by (rule round64_exact)
  with ne sgn show ?thesis
    by (simp add: a b c Let_def k_def [symmetric] x_def [symmetric] y_def [symmetric])
qed

subsection \<open>Appointments\<close>

lemma conflict_mem:
  "r \<in> set rs \<Longrightarrow> date_time (h r) = t \<Longrightarrow> appt_status (h r) = ''Scheduled'' \<Longrightarrow> conflict h rs t"
  by (induction rs) auto

lemma confirm_scan_find:
  "confirm_scan s rs aid =
     (case find (\<lambda>r. appointment_id (appt_store s r) = aid) rs of
        None \<Rightarrow> (Inr (Not_found aid), s)
      | Some r \<Rightarrow>
          if appt_status (appt_store s r) = ''Scheduled'' then
            (Inr (Has_been_confirmed aid),
             s\<lparr>appt_store := (appt_store s)(r := (appt_store s r)\<lparr>appt_status := ''Confirmed''\<rparr>)\<rparr>)
          else (Inr (Cannot_be_confirmed aid (appt_status (appt_store s r))), s))"
  by (induction rs) (simp_all add: Let_def update_status_def)

text \<open>What a successful \<open>schedule_appointment\<close> has done.\<close>

lemma schedule_appointment_success:
  assumes "schedule_appointment s p d t aid uuid = (Inr a, s1)"
  obtains pr pat dr doc where
    "get_patient s p = Some (pr, pat)" and "get_doctor s d = Some (dr, doc)" and "dr \<noteq> pr"
    and "\<not> conflict (appt_store s) (doc_appointments doc) t"
    and "a = next_ref s"
    and "s1 = s\<lparr>appt_store := (appt_store s)(a := Appointment_init p d t aid uuid),
                 next_ref := Suc a,
                 appointments := (appointments s)(appointment_id (Appointment_init p d t aid uuid) \<mapsto> a),
                 user_store := (user_store s)
                   (dr := Doctor (doc\<lparr>doc_appointments := doc_appointments doc @ [a],
                                     patients := insert p (patients doc)\<rparr>),
                    pr := Patient (pat\<lparr>pat_appointments := pat_appointments pat @ [a]\<rparr>))\<rparr>"
proof -
  from assms obtain pr pat dr doc where
    gp: "get_patient s p = Some (pr, pat)" and gd: "get_doctor s d = Some (dr, doc)"
    by (auto simp: schedule_appointment_def split: option.splits prod.splits if_splits)
  from assms gp gd have nc: "\<not> conflict (appt_store s) (doc_appointments doc) t"
    by (auto simp: schedule_appointment_def split: if_splits)
  from gp gd have ne: "dr \<noteq> pr"
    by (auto simp: get_patient_def get_doctor_def split: option.splits user_obj.splits)
  from assms gp gd nc have "a = next_ref s"
    and "s1 = s\<lparr>appt_store := (appt_store s)(a := Appointment_init p d t aid uuid),
                   next_ref := Suc a,
                   appointments := (appointments s)(appointment_id (Appointment_init p d t aid uuid) \<mapsto> a),
                   user_store := (user_store s)
                     (dr := Doctor (doc\<lparr>doc_appointments := doc_appointments doc @ [a],
                                       patients := insert p (patients doc)\<rparr>),
                      pr := Patient (pat\<lparr>pat_appointments := pat_appointments pat @ [a]\<rparr>))\<rparr>"
    by (auto simp: schedule_appointment_def Let_def)
  with gp gd ne nc that show thesis by blast
qed


subsection \<open>The invariant of the appointment store\<close>

lemma appt_invI:
  assumes "\<And>r. next_ref s \<le> r \<Longrightarrow> appt_store s r = blank_appointment"
    and "\<And>aid r. appointments s aid = Some r \<Longrightarrow> r < next_ref s"
  shows "appt_inv s"
  using assms unfolding appt_inv_def by blast

lemma appt_inv_fresh: "appt_inv s \<Longrightarrow> next_ref s \<le> r \<Longrightarrow> appt_store s r = blank_appointment"
  unfolding appt_inv_def by blast

lemma appt_inv_index: "appt_inv s \<Longrightarrow> appointments s aid = Some r \<Longrightarrow> r < next_ref s"
  unfolding appt_inv_def by blast

text \<open>An appointment with a status is a constructed one: the blank one has none.\<close>

lemma status_is_allocated:
  assumes "appt_inv s" and "appt_status (appt_store s r) \<noteq> []"
  shows "r < next_ref s"
proof (rule ccontr)
  assume "\<not> r < next_ref s"
  then have "appt_store s r = blank_appointment" using assms(1) by (simp add: appt_inv_fresh)
  with assms(2) show False by (simp add: blank_appointment_def)
qed

lemma schedule_appointment_cases:
  "snd (schedule_appointment s p d t aid uuid) = s \<or>
   (appt_store (snd (schedule_appointment s p d t aid uuid)) =
      (appt_store s)(next_ref s := Appointment_init p d t aid uuid) \<and>
    next_ref (snd (schedule_appointment s p d t aid uuid)) = Suc (next_ref s) \<and>
    appointments (snd (schedule_appointment s p d t aid uuid)) =
      (appointments s)(appointment_id (Appointment_init p d t aid uuid) \<mapsto> next_ref s))"
  by (simp add: schedule_appointment_def Let_def split: option.splits prod.splits)

lemma schedule_appt_inv:
  assumes "appt_inv s"
  shows "appt_inv (snd (schedule_appointment s p d t aid uuid))"
  using schedule_appointment_cases [of s p d t aid uuid]
proof
  assume "snd (schedule_appointment s p d t aid uuid) = s"
  with assms show ?thesis by simp
next
  assume h: "appt_store (snd (schedule_appointment s p d t aid uuid)) =
      (appt_store s)(next_ref s := Appointment_init p d t aid uuid) \<and>
    next_ref (snd (schedule_appointment s p d t aid uuid)) = Suc (next_ref s) \<and>
    appointments (snd (schedule_appointment s p d t aid uuid)) =
      (appointments s)(appointment_id (Appointment_init p d t aid uuid) \<mapsto> next_ref s)"
  show ?thesis
  proof (rule appt_invI)
    fix r assume "next_ref (snd (schedule_appointment s p d t aid uuid)) \<le> r"
    with h assms show "appt_store (snd (schedule_appointment s p d t aid uuid)) r = blank_appointment"
      by (simp add: appt_inv_fresh)
  next
    fix a r assume "appointments (snd (schedule_appointment s p d t aid uuid)) a = Some r"
    with h assms show "r < next_ref (snd (schedule_appointment s p d t aid uuid))"
      by (auto simp: less_Suc_eq dest: appt_inv_index split: if_splits)
  qed
qed

text \<open>Changing a constructed appointment in place.\<close>

lemma appt_inv_update:
  assumes "appt_inv s" and "r < next_ref s"
  shows "appt_inv (s\<lparr>appt_store := (appt_store s)(r := a)\<rparr>)"
proof (rule appt_invI)
  fix q assume "next_ref (s\<lparr>appt_store := (appt_store s)(r := a)\<rparr>) \<le> q"
  with assms show "appt_store (s\<lparr>appt_store := (appt_store s)(r := a)\<rparr>) q = blank_appointment"
    by (simp add: appt_inv_fresh)
next
  fix i q assume "appointments (s\<lparr>appt_store := (appt_store s)(r := a)\<rparr>) i = Some q"
  with assms show "q < next_ref (s\<lparr>appt_store := (appt_store s)(r := a)\<rparr>)"
    by (simp add: appt_inv_index)
qed

lemma confirm_appt_inv:
  assumes "appt_inv s"
  shows "appt_inv (snd (confirm_scan s rs aid))"
proof (cases "find (\<lambda>r. appointment_id (appt_store s r) = aid) rs")
  case None
  with assms show ?thesis by (simp add: confirm_scan_find)
next
  case (Some r)
  show ?thesis
  proof (cases "appt_status (appt_store s r) = ''Scheduled''")
    case True
    with assms have "r < next_ref s" by (simp add: status_is_allocated)
    with assms Some True show ?thesis
      by (simp add: confirm_scan_find appt_inv_update)
  next
    case False
    with assms Some show ?thesis by (simp add: confirm_scan_find)
  qed
qed

lemma cancel_appt_inv:
  assumes "appt_inv s"
  shows "appt_inv (snd (cancel_appointment s aid))"
proof (cases "appointments s aid")
  case None
  with assms show ?thesis by (simp add: cancel_appointment_def)
next
  case (Some r)
  with assms have "r < next_ref s" by (simp add: appt_inv_index)
  with assms Some show ?thesis
    by (simp add: cancel_appointment_def appt_inv_update)
qed

lemma reschedule_appointment_cases:
  "snd (reschedule_appointment s aid t) = s \<or>
   (\<exists>r. appointments s aid = Some r \<and>
        snd (reschedule_appointment s aid t) =
          s\<lparr>appt_store := (appt_store s)(r := (appt_store s r)\<lparr>date_time := t\<rparr>)\<rparr>)"
  by (simp add: reschedule_appointment_def split: option.splits prod.splits)

lemma reschedule_appt_inv:
  assumes "appt_inv s"
  shows "appt_inv (snd (reschedule_appointment s aid t))"
  using reschedule_appointment_cases [of s aid t] assms
  by (auto simp: appt_inv_update appt_inv_index)

lemma update_status_appt_inv:
  assumes "appt_inv s"
  shows "appt_inv (exec (Update_status r st) s)"
  using assms by (simp add: appt_inv_update)

lemma Patient_init_frame: "appt_frame s (snd (Patient_init s nm em dg ins uid uuid))"
  by (simp add: appt_frame_def Patient_init_def Let_def)

lemma Doctor_init_frame: "appt_frame s (snd (Doctor_init s nm em dg spec uid uuid))"
  by (simp add: appt_frame_def Doctor_init_def Let_def)

lemma Administrator_init_frame: "appt_frame s (snd (Administrator_init s nm em dg uid uuid))"
  by (simp add: appt_frame_def Administrator_init_def Let_def)

lemma MedicalRecord_init_frame:
  "appt_frame s (snd (MedicalRecord_init s p d diag treat nts rid uuid now))"
  by (simp add: appt_frame_def MedicalRecord_init_def Let_def)

lemma register_user_frame: "appt_frame s (snd (register_user s usr))"
  by (simp add: appt_frame_def register_user_def Let_def)

lemma remove_user_frame: "appt_frame s (snd (remove_user s uid))"
  by (simp add: appt_frame_def remove_user_def Let_def split: option.splits)

lemma add_medical_record_frame: "appt_frame s (snd (add_medical_record s p rec))"
  by (simp add: appt_frame_def add_medical_record_def split: option.splits prod.splits)

lemma add_prescription_frame: "appt_frame s (snd (add_prescription s p presc))"
  by (simp add: appt_frame_def add_prescription_def Let_def split: option.splits prod.splits)

lemma create_billing_frame: "appt_frame s (snd (create_billing s p amount descr bid uuid now))"
  by (simp add: appt_frame_def create_billing_def Let_def split: option.splits prod.splits)

lemma process_payment_frame: "appt_frame s (snd (process_payment s bid amount now))"
  by (simp add: appt_frame_def process_payment_def split: option.splits prod.splits)

lemma appt_inv_frame:
  assumes "appt_inv s" and "appt_frame s s'"
  shows "appt_inv s'"
proof (rule appt_invI)
  fix r assume "next_ref s' \<le> r"
  with assms have "next_ref s \<le> r" by (simp add: appt_frame_def)
  with assms show "appt_store s' r = blank_appointment"
    by (simp add: appt_frame_def appt_inv_fresh)
next
  fix a r assume "appointments s' a = Some r"
  with assms have "r < next_ref s" by (simp add: appt_frame_def appt_inv_index)
  with assms show "r < next_ref s'" by (simp add: appt_frame_def)
qed

lemma exec_frame_or_appointment_op:
  "appt_frame s (exec op s) \<or>
   (\<exists>p d t aid uuid. op = Schedule_appointment p d t aid uuid) \<or>
   (\<exists>d self aid. op = Confirm_appointment d aid \<and> user_store s d = Doctor self) \<or>
   (\<exists>aid. op = Cancel_appointment aid) \<or>
   (\<exists>aid t. op = Reschedule_appointment aid t) \<or>
   (\<exists>r st. op = Update_status r st)"
proof (cases op)
  case (Confirm_appointment d aid)
  then show ?thesis by (cases "user_store s d") (simp_all add: appt_frame_def)
qed (simp_all add: Patient_init_frame Doctor_init_frame Administrator_init_frame
       MedicalRecord_init_frame register_user_frame remove_user_frame
       add_medical_record_frame add_prescription_frame create_billing_frame
       process_payment_frame)

lemma exec_appt_inv:
  assumes "appt_inv s"
  shows "appt_inv (exec op s)"
  using exec_frame_or_appointment_op [of s op] assms
  by (auto simp: appt_inv_frame schedule_appt_inv confirm_appointment_def confirm_appt_inv
                 cancel_appt_inv reschedule_appt_inv appt_inv_update)

lemma run_appt_inv: "appt_inv (run ops)"
proof (induction ops rule: rev_induct)
  case Nil
  show ?case
    by (rule appt_invI) (simp_all add: run_def HealthcareSystem_init_def)
next
  case (snoc op ops)
  then show ?case by (simp add: run_def exec_appt_inv)
qed

text \<open>
  The status of an appointment under one call of the registry: every call leaves it
  alone, except that \<open>confirm_appointment\<close> changes Scheduled and \<open>cancel_appointment\<close>
  sets Cancelled on the appointment that its id resolves to.
\<close>

lemma frame_status:
  "appt_frame s s' \<Longrightarrow> appt_status (appt_store s' r) = appt_status (appt_store s r)"
  by (simp add: appt_frame_def)

lemma exec_status:
  assumes inv: "appt_inv s" and st: "appt_status (appt_store s r) \<noteq> []"
    and sch: "appt_status (appt_store s r) \<noteq> ''Scheduled''" and reg: "is_registry_op op"
  shows "appt_status (appt_store (exec op s) r) =
           (if cancels op s r then ''Cancelled'' else appt_status (appt_store s r))"
proof (cases op)
  case (Schedule_appointment p d t aid uuid)
  from inv st have "r < next_ref s" by (rule status_is_allocated)
  with Schedule_appointment schedule_appointment_cases [of s p d t aid uuid] show ?thesis
    by auto
next
  case (Confirm_appointment d aid)
  with sch show ?thesis
    by (cases "user_store s d")
       (auto simp: confirm_appointment_def confirm_scan_find split: option.splits)
next
  case (Cancel_appointment aid)
  then show ?thesis
    by (auto simp: cancel_appointment_def update_status_def split: option.splits)
next
  case (Reschedule_appointment aid t)
  with reschedule_appointment_cases [of s aid t] show ?thesis by auto
next
  case (Update_status q new_status)
  with reg show ?thesis by simp
qed (simp_all add: frame_status [OF Patient_init_frame] frame_status [OF Doctor_init_frame]
       frame_status [OF Administrator_init_frame] frame_status [OF MedicalRecord_init_frame]
       frame_status [OF register_user_frame] frame_status [OF remove_user_frame]
       frame_status [OF add_medical_record_frame] frame_status [OF add_prescription_frame]
       frame_status [OF create_billing_frame] frame_status [OF process_payment_frame])

subsection \<open>The scenario, evaluated\<close>

lemmas eval_defs =
  run_def setup_ops_def HealthcareSystem_init_def Patient_init_def Doctor_init_def
  Administrator_init_def register_user_def id_or_uuid_def Let_def blank_user_def

lemma registered_users: "users registered = [''P1'' \<mapsto> 0, ''A1'' \<mapsto> 1, ''D1'' \<mapsto> 2]"
  by (simp add: registered_def eval_defs)

lemma registered_patient:
  "user_store registered 0 = Patient
     \<lparr> user_id = ''P1'', name = ''Paul'', email = ''paul@clinic.org'', password = ''digest-p'',
       role = ''Patient'', medical_history = [], pat_appointments = [], billing_info = [],
       insurance_details = [(''provider'', ''X'')] \<rparr>"
  by (simp add: registered_def eval_defs)

lemma registered_doctor:
  "user_store registered 2 = Doctor
     \<lparr> user_id = ''D1'', name = ''Dora'', email = ''dora@clinic.org'', password = ''digest-d'',
       role = ''Doctor'', specialization = ''Cardiology'', doc_appointments = [], patients = {},
       schedule = {} \<rparr>"
  by (simp add: registered_def eval_defs)

lemma registered_next: "next_ref registered = 3"
  by (simp add: registered_def eval_defs)

lemma registered_get_patient:
  "get_patient registered ''P1'' = Some (0, \<lparr> user_id = ''P1'', name = ''Paul'', email = ''paul@clinic.org'', password = ''digest-p'',
       role = ''Patient'', medical_history = [], pat_appointments = [], billing_info = [],
       insurance_details = [(''provider'', ''X'')] \<rparr>)"
  by (simp add: get_patient_def registered_users registered_patient)

lemma registered_get_doctor:
  "get_doctor registered ''D1'' = Some (2, \<lparr> user_id = ''D1'', name = ''Dora'', email = ''dora@clinic.org'', password = ''digest-d'',
       role = ''Doctor'', specialization = ''Cardiology'', doc_appointments = [], patients = {},
       schedule = {} \<rparr>)"
  by (simp add: get_doctor_def registered_users registered_doctor)

lemma first_booking:
  "schedule_appointment registered ''P1'' ''D1'' slot None ''uuid-3'' = (Inr 3, booked)"
  by (simp add: booked_def schedule_appointment_def registered_get_patient registered_get_doctor
        registered_next Let_def)

lemma booked_doctor:
  "user_store booked 2 = Doctor
     \<lparr> user_id = ''D1'', name = ''Dora'', email = ''dora@clinic.org'', password = ''digest-d'',
       role = ''Doctor'', specialization = ''Cardiology'', doc_appointments = [3],
       patients = {''P1''}, schedule = {} \<rparr>"
  by (simp add: booked_def schedule_appointment_def registered_get_patient registered_get_doctor
        registered_next Let_def)

lemma booked_appointment:
  "appt_store booked 3 =
     \<lparr> appointment_id = ''uuid-3'', appt_patient_id = ''P1'', appt_doctor_id = ''D1'',
       date_time = slot, appt_status = ''Scheduled'', appt_notes = [] \<rparr>"
  by (simp add: booked_def schedule_appointment_def registered_get_patient registered_get_doctor
        registered_next Let_def Appointment_init_def id_or_uuid_def)

lemma booked_users: "users booked = users registered"
  by (simp add: booked_def schedule_appointment_def registered_get_patient registered_get_doctor
        registered_next Let_def)

lemma booked_index: "appointments booked ''uuid-3'' = Some 3"
  by (simp add: booked_def schedule_appointment_def registered_get_patient registered_get_doctor
        registered_next Let_def Appointment_init_def id_or_uuid_def)

lemma booked_next: "next_ref booked = 4"
  by (simp add: booked_def schedule_appointment_def registered_get_patient registered_get_doctor
        registered_next Let_def)

lemma booked_patient:
  "user_store booked 0 = Patient (paul\<lparr>pat_appointments := [3]\<rparr>)"
  by (simp add: booked_def schedule_appointment_def registered_get_patient registered_get_doctor
        registered_next Let_def paul_def)

lemma booked_get_doctor: "get_doctor booked ''D1'' = Some (2, dora_booked)"
  by (simp add: get_doctor_def booked_users registered_users booked_doctor dora_booked_def dora_def)

lemma booked_get_patient: "get_patient booked ''P1'' = Some (0, paul\<lparr>pat_appointments := [3]\<rparr>)"
  by (simp add: get_patient_def booked_users registered_users booked_patient)

lemma run_booked: "run (setup_ops @ [Schedule_appointment ''P1'' ''D1'' slot None ''uuid-3'']) = booked"
  by (simp add: run_def booked_def registered_def)

lemma float_100: "float_of_int 100 = Finite False 7036874417766400 (- 46)"
  by code_simp

lemma float_40: "float_of_int 40 = Finite False 5629499534213120 (- 47)"
  by code_simp

lemma float_60: "float_of_int 60 = Finite False 8444249301319680 (- 47)"
  by code_simp

lemma float_1: "float_of_int 1 = Finite False 4503599627370496 (- 52)"
  by code_simp

lemma float_1e16: "float_of_int 10000000000000000 = Finite False 5000000000000000 1"
  by code_simp

lemma pay_40_of_100:
  "float_lt float_zero (float_of_int 40)"
  "float_lt (float_of_int 40) (float_of_int 100)"
  "float_sub (float_of_int 100) (float_of_int 40) = float_of_int 60"
  "exact_difference (float_of_int 60) (float_of_int 100) (float_of_int 40)"
  by code_simp+

lemma pay_1_of_1e16:
  "float_lt float_zero (float_of_int 1)"
  "float_lt (float_of_int 1) (float_of_int 10000000000000000)"
  "float_sub (float_of_int 10000000000000000) (float_of_int 1) = float_of_int 10000000000000000"
  by code_simp+

lemma nonpositive_amounts:
  "float_le (float_of_int (- 5)) float_zero"
  "float_le float_zero float_zero"
  "float_le (Finite True 0 (- 1074)) float_zero"
  "float_le (Infinity True) float_zero"
  by code_simp+

lemma billed_index: "billings billed ''B1'' = Some 3"
  by (simp add: billed_def create_billing_def registered_get_patient registered_next Let_def
        Billing_init_def id_or_uuid_def)

lemma registered_billings: "billings registered ''B1'' = None"
  by (simp add: registered_def eval_defs)

lemma run_cancelled:
  "run cancelled_ops = snd (cancel_appointment booked ''uuid-3'')"
  using run_booked by (simp add: run_def cancelled_ops_def)

lemma cancelled_status:
  "appt_status (appt_store (run cancelled_ops) 3) = ''Cancelled''"
  by (simp add: run_cancelled cancel_appointment_def booked_index update_status_def)

lemma confirmed_eq:
  "confirmed =
     booked\<lparr>appt_store := (appt_store booked)(3 := (appt_store booked 3)\<lparr>appt_status := ''Confirmed''\<rparr>)\<rparr>"
  by (simp add: confirmed_def confirm_appointment_def dora_booked_def booked_appointment Let_def
        update_status_def)

lemma confirmed_get_patient: "get_patient confirmed ''P1'' = Some (0, paul\<lparr>pat_appointments := [3]\<rparr>)"
proof -
  have "get_patient confirmed ''P1'' = get_patient booked ''P1''"
    by (simp add: confirmed_eq get_patient_def split: option.splits)
  then show ?thesis by (simp add: booked_get_patient)
qed

lemma confirmed_get_doctor: "get_doctor confirmed ''D1'' = Some (2, dora_booked)"
proof -
  have "get_doctor confirmed ''D1'' = get_doctor booked ''D1''"
    by (simp add: confirmed_eq get_doctor_def split: option.splits)
  then show ?thesis by (simp add: booked_get_doctor)
qed

lemma confirmed_appointment:
  "appt_store confirmed 3 =
     \<lparr> appointment_id = ''uuid-3'', appt_patient_id = ''P1'', appt_doctor_id = ''D1'',
       date_time = slot, appt_status = ''Confirmed'', appt_notes = [] \<rparr>"
  by (simp add: confirmed_eq booked_appointment)

lemma confirmed_next: "next_ref confirmed = 4"
  by (simp add: confirmed_eq booked_next)

lemma run_confirmed:
  "run (setup_ops @ [Schedule_appointment ''P1'' ''D1'' slot None ''uuid-3'',
                     Confirm_appointment 2 ''uuid-3'']) = confirmed"
  using run_booked
  by (simp add: run_def booked_doctor confirmed_def dora_booked_def dora_def)

lemma run_completed: "run completed_ops = completed"
  using run_confirmed
  by (simp add: run_def completed_ops_def completed_def confirmed_next)

lemma completed_status: "appt_status (appt_store completed 3) = ''Completed''"
  by (simp add: completed_def update_status_def)

lemma completed_index: "appointments completed ''uuid-3'' = Some 3"
  by (simp add: completed_def confirmed_eq booked_index)







lemma run_double_booking:
  "run double_booking_ops =
     snd (schedule_appointment confirmed ''P1'' ''D1'' slot None ''uuid-4'')"
  using run_booked
  by (simp add: run_def double_booking_ops_def booked_doctor confirmed_def dora_booked_def dora_def)

section \<open>The claims\<close>

text \<open>
  Claim C1 says that no doctor ever has two active appointments (Scheduled or Confirmed)
  at the same time. The conflict scan looks for the status Scheduled only, so a slot
  whose appointment the doctor has confirmed is booked again: after P1 books D1 at the
  slot, D1 confirms and P1 books the same slot once more, the second booking is accepted
  and the doctor's list holds the appointments 3 (Confirmed) and 4 (Scheduled), both of
  doctor D1 and both at the slot.
\<close>

theorem confirmed_slot_is_booked_again:
  "run double_booking_ops = snd (schedule_appointment confirmed ''P1'' ''D1'' slot None ''uuid-4'') \<and>
   fst (schedule_appointment confirmed ''P1'' ''D1'' slot None ''uuid-4'') = Inr 4 \<and>
   (case user_store (run double_booking_ops) 2 of
      Doctor doc \<Rightarrow> doc_appointments doc = [3, 4]
    | _ \<Rightarrow> False) \<and>
   appt_doctor_id (appt_store (run double_booking_ops) 3) = ''D1'' \<and>
   date_time (appt_store (run double_booking_ops) 3) = slot \<and>
   appt_status (appt_store (run double_booking_ops) 3) = ''Confirmed'' \<and>
   appt_doctor_id (appt_store (run double_booking_ops) 4) = ''D1'' \<and>
   date_time (appt_store (run double_booking_ops) 4) = slot \<and>
   appt_status (appt_store (run double_booking_ops) 4) = ''Scheduled''"
proof -
  have da: "doc_appointments dora_booked = [3]" by (simp add: dora_booked_def)
  have nc: "\<not> conflict (appt_store confirmed) (doc_appointments dora_booked) slot"
    by (simp add: da confirmed_appointment)
  show ?thesis
    by (simp add: run_double_booking schedule_appointment_def confirmed_get_patient
          confirmed_get_doctor nc Let_def confirmed_next confirmed_appointment da
          Appointment_init_def)
qed

text \<open>
  Claim C2. After a booking of doctor \<open>d\<close> at time \<open>t\<close> has succeeded, the next booking
  of \<open>d\<close> at \<open>t\<close>, by the same patient or by any patient id that resolves to a patient,
  raises the scheduling conflict and changes nothing, and the first appointment has
  the status Scheduled.
\<close>

theorem schedule_twice_conflict:
  assumes first: "schedule_appointment s p1 d t aid1 uuid1 = (Inr a, s1)"
  shows "appt_status (appt_store s1 a) = ''Scheduled'' \<and>
         schedule_appointment s1 p1 d t aid2 uuid2 =
           (Inl (SchedulingConflictError ''Doctor is not available at this time.''), s1) \<and>
         (get_patient s1 p2 \<noteq> None \<longrightarrow>
            schedule_appointment s1 p2 d t aid2 uuid2 =
              (Inl (SchedulingConflictError ''Doctor is not available at this time.''), s1))"
proof -
  from first obtain pr pat dr doc where
    gp: "get_patient s p1 = Some (pr, pat)" and gd: "get_doctor s d = Some (dr, doc)"
    and ne: "dr \<noteq> pr"
    and s1: "s1 = s\<lparr>appt_store := (appt_store s)(a := Appointment_init p1 d t aid1 uuid1),
                   next_ref := Suc a,
                   appointments := (appointments s)(appointment_id (Appointment_init p1 d t aid1 uuid1) \<mapsto> a),
                   user_store := (user_store s)
                     (dr := Doctor (doc\<lparr>doc_appointments := doc_appointments doc @ [a],
                                       patients := insert p1 (patients doc)\<rparr>),
                      pr := Patient (pat\<lparr>pat_appointments := pat_appointments pat @ [a]\<rparr>))\<rparr>"
    by (rule schedule_appointment_success)
  have st: "appt_status (appt_store s1 a) = ''Scheduled''" and dt: "date_time (appt_store s1 a) = t"
    by (simp_all add: s1 Appointment_init_def)
  from gd ne have gd1: "get_doctor s1 d =
      Some (dr, doc\<lparr>doc_appointments := doc_appointments doc @ [a],
                     patients := insert p1 (patients doc)\<rparr>)"
    by (auto simp: s1 get_doctor_def split: option.splits user_obj.splits)
  have cf: "conflict (appt_store s1)
              (doc_appointments (doc\<lparr>doc_appointments := doc_appointments doc @ [a],
                     patients := insert p1 (patients doc)\<rparr>)) t"
    by (rule conflict_mem [of a]) (simp_all add: st dt)
  from gp have gp1: "get_patient s1 p1 \<noteq> None"
    by (auto simp: s1 get_patient_def split: option.splits user_obj.splits)
  have any: "schedule_appointment s1 q d t aid2 uuid2 =
              (Inl (SchedulingConflictError ''Doctor is not available at this time.''), s1)"
    if "get_patient s1 q \<noteq> None" for q
    using that gd1 cf by (auto simp: schedule_appointment_def)
  show ?thesis using st any [OF gp1] any by blast
qed

theorem schedule_twice_conflict_witness:
  "schedule_appointment registered ''P1'' ''D1'' slot None ''uuid-3'' = (Inr 3, booked) \<and>
   get_patient booked ''P1'' \<noteq> None \<and>
   appt_status (appt_store booked 3) = ''Scheduled'' \<and>
   schedule_appointment booked ''P1'' ''D1'' slot None ''uuid-4'' =
     (Inl (SchedulingConflictError ''Doctor is not available at this time.''), booked)"
  using first_booking booked_get_patient
    schedule_twice_conflict [OF first_booking, of None "''uuid-4''" "''P1''"]
  by simp

text \<open>
  Claim C3 says that a payment with \<open>0 < amount < amount_due\<close> lowers the amount due by
  exactly the amount. The subtraction is one of doubles and its result is rounded: of a
  bill of 1e16 a payment of 1.0 leaves 1e16, so the amount due has not changed at all.
\<close>

theorem apply_payment_partial_counterexample:
  "amount_due big_bill = float_of_int 10000000000000000 \<and>
   float_lt float_zero (float_of_int 1) \<and>
   float_lt (float_of_int 1) (amount_due big_bill) \<and>
   fst (apply_payment big_bill (float_of_int 1) slot) = Inr () \<and>
   amount_due (snd (apply_payment big_bill (float_of_int 1) slot)) = amount_due big_bill"
proof -
  have a: "amount_due big_bill = float_of_int 10000000000000000"
    by (simp add: big_bill_def Billing_init_def)
  have n1: "\<not> float_le (float_of_int 1) float_zero"
    using pay_1_of_1e16(1) by (rule float_lt_not_le)
  have n2: "\<not> float_le (float_of_int 10000000000000000) (float_of_int 1)"
    using pay_1_of_1e16(2) by (rule float_lt_not_le)
  show ?thesis
    using n1 n2 by (simp add: apply_payment_def a pay_1_of_1e16 Let_def)
qed

text \<open>
  Claim C3, amended. A payment with \<open>0 < amount < amount_due\<close> succeeds and replaces the
  amount due by the float difference \<open>amount_due - amount\<close>, which is the exact
  difference whenever that is a double; the status becomes Overdue when the clock is
  past the due date and is left as it was otherwise, so that an Unpaid billing stays
  Unpaid and no billing becomes Paid.
\<close>

theorem apply_payment_partial:
  assumes "float_lt float_zero amount" and "float_lt amount (amount_due b)"
  shows "apply_payment b amount now =
           (Inr (), b\<lparr>amount_due := float_sub (amount_due b) amount,
                      bill_status := (if now > due_date b then ''Overdue'' else bill_status b)\<rparr>) \<and>
         (exact_difference c (amount_due b) amount \<longrightarrow>
            amount_due (snd (apply_payment b amount now)) = c) \<and>
         (bill_status b \<noteq> ''Paid'' \<longrightarrow> bill_status (snd (apply_payment b amount now)) \<noteq> ''Paid'') \<and>
         (bill_status b = ''Unpaid'' \<and> \<not> now > due_date b \<longrightarrow>
            bill_status (snd (apply_payment b amount now)) = ''Unpaid'')"
proof -
  from assms have n: "\<not> float_le amount float_zero" "\<not> float_le (amount_due b) amount"
    by (simp_all add: float_lt_not_le)
  with assms have eq: "apply_payment b amount now =
      (Inr (), b\<lparr>amount_due := float_sub (amount_due b) amount,
                 bill_status := (if now > due_date b then ''Overdue'' else bill_status b)\<rparr>)"
    by (simp add: apply_payment_def Let_def)
  show ?thesis by (simp add: eq float_sub_exact)
qed

theorem apply_payment_partial_witness:
  "float_lt float_zero (float_of_int 40) \<and>
   float_lt (float_of_int 40) (amount_due visit_bill) \<and>
   exact_difference (float_of_int 60) (amount_due visit_bill) (float_of_int 40) \<and>
   fst (apply_payment visit_bill (float_of_int 40) slot) = Inr () \<and>
   amount_due (snd (apply_payment visit_bill (float_of_int 40) slot)) = float_of_int 60 \<and>
   bill_status (snd (apply_payment visit_bill (float_of_int 40) slot)) = ''Unpaid'' \<and>
   bill_status (snd (apply_payment visit_bill (float_of_int 40) (slot + timedelta_days 31))) =
     ''Overdue''"
proof -
  have a: "amount_due visit_bill = float_of_int 100"
    by (simp add: visit_bill_def Billing_init_def)
  have h1: "float_lt float_zero (float_of_int 40)" by (rule pay_40_of_100)
  have h2: "float_lt (float_of_int 40) (amount_due visit_bill)"
    by (simp add: a pay_40_of_100)
  have h3: "exact_difference (float_of_int 60) (amount_due visit_bill) (float_of_int 40)"
    by (simp add: a pay_40_of_100)
  have st: "bill_status visit_bill = ''Unpaid''" "due_date visit_bill = slot + timedelta_days 30"
    by (simp_all add: visit_bill_def Billing_init_def)
  show ?thesis
    using h1 h2 h3 st
      apply_payment_partial [OF h1 h2, of slot "float_of_int 60"]
      apply_payment_partial [OF h1 h2, of "slot + timedelta_days 31" "float_of_int 60"]
    by (simp add: timedelta_days_def a pay_40_of_100)
qed

text \<open>
  Claim C4. A payment of zero or less raises the billing error and leaves the billing
  as it was, field by field; through the registry's \<open>process_payment\<close> the whole state
  is as it was.
\<close>

theorem apply_payment_rejects_nonpositive:
  assumes "float_le amount float_zero"
  shows "apply_payment b amount now =
           (Inl (BillingError ''Payment amount must be positive.''), b) \<and>
         (billings s bid = Some r \<longrightarrow>
            process_payment s bid amount now =
              (Inl (BillingError ''Payment amount must be positive.''), s))"
  using assms by (simp add: apply_payment_def process_payment_def)

theorem apply_payment_rejects_nonpositive_witness:
  "float_le (float_of_int (- 5)) float_zero \<and> float_le float_zero float_zero \<and>
   billings billed ''B1'' = Some 3 \<and>
   apply_payment visit_bill (float_of_int (- 5)) slot =
     (Inl (BillingError ''Payment amount must be positive.''), visit_bill) \<and>
   process_payment billed ''B1'' (float_of_int (- 5)) slot =
     (Inl (BillingError ''Payment amount must be positive.''), billed) \<and>
   apply_payment visit_bill float_zero slot =
     (Inl (BillingError ''Payment amount must be positive.''), visit_bill) \<and>
   process_payment billed ''B1'' float_zero slot =
     (Inl (BillingError ''Payment amount must be positive.''), billed)"
proof -
  have h: "float_le (float_of_int (- 5)) float_zero" by (rule nonpositive_amounts)
  have z: "float_le float_zero float_zero" by (rule nonpositive_amounts)
  show ?thesis
    using h z billed_index
      apply_payment_rejects_nonpositive [OF h, of visit_bill slot billed "''B1''" 3]
      apply_payment_rejects_nonpositive [OF z, of visit_bill slot billed "''B1''" 3]
    by simp
qed

text \<open>
  Claim C5. For a doctor object (class and role Doctor): as long as the patient's id is
  not in the doctor's set of patients, \<open>access_medical_records\<close> raises the
  authorization error; after a successful booking of that patient with that doctor
  (the doctor's id resolving to this object), the same call returns the patient's
  medical history.
\<close>

theorem doctor_access_follows_assignment:
  assumes d: "user_store s d = Doctor doc" and rl: "role doc = ''Doctor''"
  shows "(pid \<notin> patients doc \<longrightarrow>
            access_medical_records s d pid =
              Inl (AuthorizationError ''Doctor not assigned to this patient.'')) \<and>
         (users s did = Some d \<and> schedule_appointment s pid did t aid uuid = (Inr a, s1) \<longrightarrow>
            (\<exists>pr pat. get_patient s pid = Some (pr, pat) \<and>
                      access_medical_records s1 d pid = Inr (medical_history pat)))"
proof (intro conjI impI)
  assume "pid \<notin> patients doc"
  with d rl show "access_medical_records s d pid =
      Inl (AuthorizationError ''Doctor not assigned to this patient.'')"
    by (simp add: access_medical_records_def)
next
  assume h: "users s did = Some d \<and> schedule_appointment s pid did t aid uuid = (Inr a, s1)"
  then obtain pr pat dr doc' where
    gp: "get_patient s pid = Some (pr, pat)" and gd: "get_doctor s did = Some (dr, doc')"
    and ne: "dr \<noteq> pr"
    and s1: "s1 = s\<lparr>appt_store := (appt_store s)(a := Appointment_init pid did t aid uuid),
                   next_ref := Suc a,
                   appointments := (appointments s)(appointment_id (Appointment_init pid did t aid uuid) \<mapsto> a),
                   user_store := (user_store s)
                     (dr := Doctor (doc'\<lparr>doc_appointments := doc_appointments doc' @ [a],
                                       patients := insert pid (patients doc')\<rparr>),
                      pr := Patient (pat\<lparr>pat_appointments := pat_appointments pat @ [a]\<rparr>))\<rparr>"
    by (auto elim: schedule_appointment_success)
  from gd h d have dr: "dr = d" and doc': "doc' = doc"
    by (auto simp: get_doctor_def)
  from ne dr have us: "user_store s1 d =
      Doctor (doc\<lparr>doc_appointments := doc_appointments doc @ [a],
                   patients := insert pid (patients doc)\<rparr>)"
    by (simp add: s1 doc')
  from gp have gp1: "get_patient s1 pid =
      Some (pr, pat\<lparr>pat_appointments := pat_appointments pat @ [a]\<rparr>)"
    by (auto simp: s1 get_patient_def split: option.splits user_obj.splits)
  have "access_medical_records s1 d pid = Inr (medical_history pat)"
    using us rl gp1 by (simp add: access_medical_records_def get_medical_records_def)
  with gp show "\<exists>pr pat. get_patient s pid = Some (pr, pat) \<and>
      access_medical_records s1 d pid = Inr (medical_history pat)" by blast
qed

theorem doctor_access_follows_assignment_witness:
  "user_store registered 2 = Doctor dora \<and> role dora = ''Doctor'' \<and>
   ''P1'' \<notin> patients dora \<and> users registered ''D1'' = Some 2 \<and>
   schedule_appointment registered ''P1'' ''D1'' slot None ''uuid-3'' = (Inr 3, booked) \<and>
   access_medical_records registered 2 ''P1'' =
     Inl (AuthorizationError ''Doctor not assigned to this patient.'') \<and>
   access_medical_records booked 2 ''P1'' = Inr []"
proof -
  have d: "user_store registered 2 = Doctor dora" by (simp add: registered_doctor dora_def)
  have r: "role dora = ''Doctor''" by (simp add: dora_def)
  have n: "''P1'' \<notin> patients dora" by (simp add: dora_def)
  have u: "users registered ''D1'' = Some 2" by (simp add: registered_users)
  have m: "medical_history paul = []" by (simp add: paul_def)
  have g: "get_patient registered ''P1'' = Some (0, paul)"
    by (simp add: registered_get_patient paul_def)
  show ?thesis
    using d r n u m g first_booking
      doctor_access_follows_assignment [OF d r, of "''P1''" "''D1''" slot None "''uuid-3''" 3 booked]
    by simp
qed

text \<open>
  Claim C6. \<open>Doctor.confirm_appointment\<close> never raises. It looks for the first entry of
  the doctor's list with the given id: with no such entry, or with one whose status is
  not Scheduled, the state is unchanged and only a message is reported; with one whose
  status is Scheduled, that appointment becomes Confirmed and nothing else changes.
\<close>

theorem confirm_appointment_reports:
  "(\<exists>rep. fst (confirm_appointment s self aid) = Inr rep) \<and>
   (case find (\<lambda>r. appointment_id (appt_store s r) = aid) (doc_appointments self) of
      None \<Rightarrow> confirm_appointment s self aid = (Inr (Not_found aid), s)
    | Some r \<Rightarrow>
        if appt_status (appt_store s r) = ''Scheduled'' then
          confirm_appointment s self aid =
            (Inr (Has_been_confirmed aid),
             s\<lparr>appt_store := (appt_store s)(r := (appt_store s r)\<lparr>appt_status := ''Confirmed''\<rparr>)\<rparr>)
        else
          confirm_appointment s self aid =
            (Inr (Cannot_be_confirmed aid (appt_status (appt_store s r))), s))"
  by (simp add: confirm_appointment_def confirm_scan_find split: option.splits)

theorem confirm_appointment_reports_witness:
  "find (\<lambda>r. appointment_id (appt_store booked r) = ''uuid-3'') (doc_appointments dora_booked) = Some 3 \<and>
   appt_status (appt_store booked 3) = ''Scheduled'' \<and>
   confirm_appointment booked dora_booked ''uuid-3'' =
     (Inr (Has_been_confirmed ''uuid-3''),
      booked\<lparr>appt_store := (appt_store booked)(3 := (appt_store booked 3)\<lparr>appt_status := ''Confirmed''\<rparr>)\<rparr>) \<and>
   find (\<lambda>r. appointment_id (appt_store booked r) = ''uuid-9'') (doc_appointments dora_booked) = None \<and>
   confirm_appointment booked dora_booked ''uuid-9'' = (Inr (Not_found ''uuid-9''), booked)"
  using confirm_appointment_reports [of booked dora_booked "''uuid-3''"]
    confirm_appointment_reports [of booked dora_booked "''uuid-9''"]
  by (simp add: dora_booked_def booked_appointment)

text \<open>
  Claim C7 says that no operation changes the status of a Cancelled or of a Completed
  appointment. \<open>cancel_appointment\<close> tests no status: an appointment that has been booked,
  confirmed and marked Completed is Cancelled after it.
\<close>

theorem terminal_status_counterexample:
  "appt_status (appt_store (run completed_ops) 3) = ''Completed'' \<and>
   appt_status (appt_store (exec (Cancel_appointment ''uuid-3'') (run completed_ops)) 3) =
     ''Cancelled''"
  by (simp add: run_completed completed_status completed_index cancel_appointment_def
        update_status_def)

text \<open>
  Claim C7, amended. In every state reached by a sequence of calls from the empty
  registry, \<open>Appointment.update_status\<close> among them, no operation of the registry changes
  the status of a Cancelled appointment, and a Completed appointment keeps its status
  under every operation of the registry but \<open>cancel_appointment\<close> with its id, which
  sets it to Cancelled.
\<close>

theorem terminal_status_is_final:
  assumes "is_registry_op op"
  shows "(appt_status (appt_store (run ops) r) = ''Cancelled'' \<longrightarrow>
            appt_status (appt_store (exec op (run ops)) r) = ''Cancelled'') \<and>
         (appt_status (appt_store (run ops) r) = ''Completed'' \<longrightarrow>
            appt_status (appt_store (exec op (run ops)) r) =
              (if cancels op (run ops) r then ''Cancelled'' else ''Completed''))"
  using exec_status [OF run_appt_inv _ _ assms, of ops r] by auto

theorem terminal_status_is_final_witness:
  "is_registry_op (Confirm_appointment 2 ''uuid-3'') \<and>
   is_registry_op (Cancel_appointment ''uuid-3'') \<and>
   appt_status (appt_store (run cancelled_ops) 3) = ''Cancelled'' \<and>
   appt_status (appt_store (exec (Confirm_appointment 2 ''uuid-3'') (run cancelled_ops)) 3) =
     ''Cancelled'' \<and>
   appt_status (appt_store (exec (Cancel_appointment ''uuid-3'') (run cancelled_ops)) 3) =
     ''Cancelled'' \<and>
   appt_status (appt_store (run completed_ops) 3) = ''Completed'' \<and>
   \<not> cancels (Confirm_appointment 2 ''uuid-3'') (run completed_ops) 3 \<and>
   appt_status (appt_store (exec (Confirm_appointment 2 ''uuid-3'') (run completed_ops)) 3) =
     ''Completed''"
proof -
  have a: "is_registry_op (Confirm_appointment 2 ''uuid-3'')" by simp
  have b: "is_registry_op (Cancel_appointment ''uuid-3'')" by simp
  show ?thesis
    using a b cancelled_status completed_status
      terminal_status_is_final [OF a, of cancelled_ops 3]
      terminal_status_is_final [OF b, of cancelled_ops 3]
      terminal_status_is_final [OF a, of completed_ops 3]
    by (simp add: run_completed)
qed




text \<open>
  Claim C9. For a patient with an empty medical history, \<open>add_prescription\<close> succeeds and
  puts the prescription into the registry's index, no medical record changes, and both
  \<open>get_prescriptions\<close> and the patient's \<open>view_prescriptions\<close> return the empty list
  afterwards.
\<close>

theorem add_prescription_without_record:
  assumes "get_patient s pid = Some (pr, pat)" and "medical_history pat = []"
  shows "add_prescription s pid p =
           (Inr (), s\<lparr>prescriptions := (prescriptions s)(prescription_id p \<mapsto> p)\<rparr>) \<and>
         prescriptions (snd (add_prescription s pid p)) (prescription_id p) = Some p \<and>
         record_store (snd (add_prescription s pid p)) = record_store s \<and>
         get_patient (snd (add_prescription s pid p)) pid = Some (pr, pat) \<and>
         get_prescriptions (snd (add_prescription s pid p)) pid = Inr [] \<and>
         view_prescriptions (snd (add_prescription s pid p)) pat = []"
proof -
  from assms have eq: "add_prescription s pid p =
      (Inr (), s\<lparr>prescriptions := (prescriptions s)(prescription_id p \<mapsto> p)\<rparr>)"
    by (simp add: add_prescription_def Let_def)
  have "get_patient (s\<lparr>prescriptions := (prescriptions s)(prescription_id p \<mapsto> p)\<rparr>) pid =
        get_patient s pid"
    by (simp add: get_patient_def split: option.splits)
  with assms(1) have gp: "get_patient (s\<lparr>prescriptions := (prescriptions s)(prescription_id p \<mapsto> p)\<rparr>) pid =
        Some (pr, pat)"
    by simp
  show ?thesis
    using assms(2) gp
    by (simp add: eq get_prescriptions_def view_prescriptions_def collect_prescriptions_def)
qed

theorem add_prescription_without_record_witness:
  "get_patient registered ''P1'' = Some (0, paul) \<and> medical_history paul = [] \<and>
   fst (add_prescription registered ''P1'' rest_rx) = Inr () \<and>
   prescriptions (snd (add_prescription registered ''P1'' rest_rx)) ''RX1'' = Some rest_rx \<and>
   get_prescriptions (snd (add_prescription registered ''P1'' rest_rx)) ''P1'' = Inr [] \<and>
   view_prescriptions (snd (add_prescription registered ''P1'' rest_rx)) paul = []"
proof -
  have g: "get_patient registered ''P1'' = Some (0, paul)"
    by (simp add: registered_get_patient paul_def)
  have m: "medical_history paul = []" by (simp add: paul_def)
  have i: "prescription_id rest_rx = ''RX1''"
    by (simp add: rest_rx_def Prescription_init_def id_or_uuid_def)
  show ?thesis
    using g m i add_prescription_without_record [OF g m, of rest_rx] by auto
qed

text \<open>
  Claim C10. For a billing id that is not in the index, \<open>process_payment\<close> raises
  \<open>BillingError\<close>, not \<open>RecordNotFoundError\<close>, and leaves the state unchanged.
\<close>

theorem process_payment_unknown_billing:
  assumes "billings s bid = None"
  shows "process_payment s bid amount now = (Inl (BillingError ''Billing record not found.''), s) \<and>
         (\<forall>msg. fst (process_payment s bid amount now) \<noteq> Inl (RecordNotFoundError msg))"
  using assms by (simp add: process_payment_def)

theorem process_payment_unknown_billing_witness:
  "billings registered ''B1'' = None \<and>
   process_payment registered ''B1'' (float_of_int 40) slot =
     (Inl (BillingError ''Billing record not found.''), registered)"
  using registered_billings process_payment_unknown_billing [OF registered_billings, of "float_of_int 40" slot]
  by simp

end
